theory Spec2Isabelle
  imports Main
begin

section \<open>Values, errors and the process-wide state of operate.py\<close>

text \<open>
  Python values that reach the settings object: \<open>None\<close>, booleans, integers, strings,
  lists and the dictionary returned by \<open>yaml.safe_load\<close> (an association list, keys
  distinct).
\<close>

datatype pyval =
    PNone
  | PBool bool
  | PInt int
  | PStr string
  | PList "pyval list"
  | PDict "(string \<times> pyval) list"

text \<open>
  Every way a call of the source can end other than by returning: the exceptions raised
  by the source itself (\<open>RuntimeError\<close>, and \<open>SystemExit\<close> from \<open>exit(ret)\<close>) and the
  ones raised by the interpreter and the library calls the source makes.
\<close>

datatype error =
    TypeError string
  | AttributeError string
  | RuntimeError string
  | SystemExit int
  | UnicodeDecodeError
  | OSError string
  | ValueError string

text \<open>The numeric severities of the \<open>logging\<close> module.\<close>

definition DEBUG :: int where "DEBUG = 10"
definition INFO :: int where "INFO = 20"
definition WARNING :: int where "WARNING = 30"
definition ERROR :: int where "ERROR = 40"

text \<open>
  A handler installed on the logger named \<open>Operator\<close>: the stream handler on standard
  error or the \<open>SysLogHandler\<close> on \<open>/dev/log\<close>, with its own threshold.
\<close>

datatype sink = Console | SysLog

record handler =
  sink :: sink
  level :: int

text \<open>
  The state shared by the whole process: the logger \<open>logging.getLogger('Operator')\<close>
  (its own level, \<open>0\<close> being \<open>NOTSET\<close>, and its handlers in installation order), the
  records handed to that logger (severity and message, oldest first) and the argument
  vectors of the subprocesses created by \<open>subprocess.Popen\<close>, oldest first.
\<close>

record world =
  logger_level :: int
  handlers :: "handler list"
  records :: "(int \<times> pyval) list"
  spawned :: "string list list"

text \<open>
  What the host answers to the library calls of the source. None of it is code of the
  repository, so it is a parameter: whether \<open>/dev/log\<close> exists, \<open>os.path.islink\<close>,
  \<open>shlex.split\<close>, the output (as successive \<open>readline\<close> results) and exit code of the
  process that \<open>Popen\<close> creates for an argument vector, \<open>bytes.decode("utf-8")\<close>,
  \<open>open\<close> followed by \<open>yaml.safe_load\<close>, and the text that \<open>str.format\<close> puts for a list
  or a dictionary. A \<open>string\<close> holds the code points of a Python \<open>str\<close> up to U+00FF.
\<close>

type_synonym bytes = "nat list"

record process =
  stdout :: "bytes list"
  returncode :: int

record host =
  dev_log :: bool
  islink :: "string \<Rightarrow> bool"
  shlex_split :: "string \<Rightarrow> error + string list"
  popen :: "string list \<Rightarrow> error + process"
  decode :: "bytes \<Rightarrow> error + string"
  safe_load :: "string \<Rightarrow> error + pyval"
  format_container :: "pyval \<Rightarrow> string"

section \<open>The Logger Provisioner: \<open>Operator.get_logger\<close>\<close>

text \<open>
  The body of \<open>get_logger(self, verbosity=None)\<close>. The parameter \<open>self\<close> is not used by
  the body, so only \<open>verbosity\<close> (\<open>None\<close> when not given) is passed here; how a call
  binds its arguments to \<open>self\<close> and \<open>verbosity\<close> is \<open>get_logger_on_class\<close> below.
\<close>

definition console_level :: "int option \<Rightarrow> int" where
  "console_level verbosity =
     (case verbosity of Some v \<Rightarrow> 40 - (min 3 v * 10) | None \<Rightarrow> 40)"

definition get_logger :: "host \<Rightarrow> int option \<Rightarrow> world \<Rightarrow> world" where
  "get_logger h verbosity w =
     (let w1 = w\<lparr>logger_level := DEBUG\<rparr> in
      if length (handlers w1) = 0 then
        (let stderr = \<lparr>sink = Console, level = console_level verbosity\<rparr>;
             w2 = w1\<lparr>handlers := handlers w1 @ [stderr]\<rparr>
         in if dev_log h
            then w2\<lparr>handlers := handlers w2 @ [\<lparr>sink = SysLog, level = INFO\<rparr>]\<rparr>
            else w2)
      else (case verbosity of
              Some v \<Rightarrow>
                w1\<lparr>handlers :=
                     (handlers w1)[0 := (handlers w1 ! 0)\<lparr>level := 40 - (min 3 v * 10)\<rparr>]\<rparr>
            | None \<Rightarrow> w1))"

text \<open>
  \<open>get_logger\<close> is declared without \<open>@classmethod\<close> or \<open>@staticmethod\<close>, so looked up
  on the class it is a plain function of two parameters. The source calls it on the
  class in two shapes: \<open>cls.get_logger()\<close> (in \<open>load\<close> and \<open>shell\<close>), with no argument at
  all, and \<open>Operator.get_logger(verbose)\<close> (in \<open>main\<close>), with one positional argument.
  With no argument the required parameter \<open>self\<close> is missing and Python raises
  \<open>TypeError\<close> before the body runs; one positional argument is bound to \<open>self\<close>, and
  \<open>verbosity\<close> keeps its default \<open>None\<close>.
\<close>

definition missing_self :: error where
  "missing_self = TypeError ''get_logger() missing 1 required positional argument: self''"

fun get_logger_on_class :: "host \<Rightarrow> pyval option \<Rightarrow> world \<Rightarrow> (error + unit) \<times> world" where
  "get_logger_on_class h None w = (Inl missing_self, w)"
| "get_logger_on_class h (Some self) w = (Inr (), get_logger h None w)"

text \<open>A call of \<open>logger.debug\<close>, \<open>logger.warning\<close> or \<open>logger.error\<close> on the handle.\<close>

definition emit :: "int \<Rightarrow> pyval \<Rightarrow> world \<Rightarrow> world" where
  "emit lvl msg w = w\<lparr>records := records w @ [(lvl, msg)]\<rparr>"

text \<open>
  The shapes in which the source calls \<open>get_logger\<close>: on an instance, as
  \<open>self.get_logger(verbosity=verbosity)\<close> in \<open>__init__\<close>, and on the class, with no
  argument or with one. A sequence of calls threads the state of the process through
  them, each call with the host as it is at that time; a call that raises leaves the
  state as it was.
\<close>

datatype call = OnInstance "int option" | OnClass "pyval option"

fun get_logger_call :: "host \<Rightarrow> call \<Rightarrow> world \<Rightarrow> world" where
  "get_logger_call h (OnInstance verbosity) w = get_logger h verbosity w"
| "get_logger_call h (OnClass arg) w = snd (get_logger_on_class h arg w)"

fun get_logger_calls :: "(host \<times> call) list \<Rightarrow> world \<Rightarrow> world" where
  "get_logger_calls [] w = w"
| "get_logger_calls ((h, c) # cs) w = get_logger_calls cs (get_logger_call h c w)"

text \<open>
  The handler lists the logger can have: none, the console sink alone, or the console
  sink followed by the system-log sink at \<open>INFO\<close>.
\<close>

fun sinks_ok :: "handler list \<Rightarrow> bool" where
  "sinks_ok [] = True"
| "sinks_ok [c] = (sink c = Console)"
| "sinks_ok [c, s] = (sink c = Console \<and> sink s = SysLog \<and> level s = INFO)"
| "sinks_ok (c # s # x # xs) = False"

text \<open>The state of a process that has not touched the logger yet.\<close>

definition fresh :: world where
  "fresh = \<lparr>logger_level = 0, handlers = [], records = [], spawned = []\<rparr>"

section \<open>The Process Runner: \<open>Operator._utf8ify\<close> and \<open>Operator.shell\<close>\<close>

text \<open>\<open>str.rstrip()\<close> removes the trailing characters for which \<open>str.isspace\<close> holds.\<close>

definition isspace :: "char \<Rightarrow> bool" where
  "isspace c = ((of_char c :: nat) \<in> {9, 10, 11, 12, 13, 28, 29, 30, 31, 32, 133, 160})"

definition rstrip :: "string \<Rightarrow> string" where
  "rstrip s = rev (dropWhile isspace (rev s))"

definition utf8ify :: "host \<Rightarrow> bytes \<Rightarrow> error + string" where
  "utf8ify h line_bytes =
     (case decode h line_bytes of Inl e \<Rightarrow> Inl e | Inr s \<Rightarrow> Inr (rstrip s))"

text \<open>Decimal text of an integer, as \<open>str.format\<close> writes it.\<close>

fun digits :: "nat \<Rightarrow> string" where
  "digits n =
     (if n < 10 then [char_of (48 + n)] else digits (n div 10) @ [char_of (48 + n mod 10)])"

declare digits.simps [simp del]

definition show_int :: "int \<Rightarrow> string" where
  "show_int i = (if i < 0 then CHR ''-'' # digits (nat (- i)) else digits (nat i))"

text \<open>
  \<open>shell\<close> contains \<open>yield\<close>, so it is a generator function: calling it runs none of its
  body and returns a generator object. The body runs when the caller asks for the next
  element. A generator is either created and not started, suspended at the \<open>yield\<close>
  (with the command, the flag \<open>fail\<close>, the output the child has not delivered yet and the
  child's exit code), or closed (returned or raised).
\<close>

datatype gen =
    Created string bool
  | Suspended string bool "bytes list" int
  | Closed

definition shell :: "string \<Rightarrow> bool \<Rightarrow> world \<Rightarrow> gen \<times> world" where
  "shell cmd fail w = (Created cmd fail, w)"

text \<open>
  The result of asking a generator for its next element: \<open>Inr (Some line)\<close> when it
  yields, \<open>Inr None\<close> when it is exhausted, \<open>Inl e\<close> when its body raises.

  \<open>shell_finish\<close> is the code after the loop (\<open>ret = proc.wait()\<close> and the two branches
  on it), \<open>shell_loop\<close> one round of the \<open>for\<close> loop over
  \<open>map(cls._utf8ify, iter(proc.stdout.readline, b''))\<close>, and the \<open>Created\<close> case of
  \<open>gen_next\<close> the code before the loop.
\<close>

definition shell_finish ::
  "string \<Rightarrow> bool \<Rightarrow> int \<Rightarrow> world \<Rightarrow> (error + string option) \<times> gen \<times> world" where
  "shell_finish cmd fail ret w =
     (if fail \<and> ret \<noteq> 0 then
        (Inl (SystemExit ret), Closed, emit ERROR (PStr (''Command errored: '' @ cmd)) w)
      else if ret \<noteq> 0 then
        (Inr None, Closed,
         emit WARNING (PStr (''Command returned '' @ show_int ret @ '': '' @ cmd)) w)
      else (Inr None, Closed, w))"

definition shell_loop ::
  "host \<Rightarrow> string \<Rightarrow> bool \<Rightarrow> bytes list \<Rightarrow> int \<Rightarrow> world \<Rightarrow>
   (error + string option) \<times> gen \<times> world" where
  "shell_loop h cmd fail out ret w =
     (case out of
        [] \<Rightarrow> shell_finish cmd fail ret w
      | line_bytes # rest \<Rightarrow>
          if line_bytes = [] then shell_finish cmd fail ret w
          else (case utf8ify h line_bytes of
                  Inl e \<Rightarrow> (Inl e, Closed, w)
                | Inr line \<Rightarrow>
                    (Inr (Some line), Suspended cmd fail rest ret,
                     emit DEBUG (PStr (''Line:    '' @ line)) w)))"

fun gen_next :: "host \<Rightarrow> gen \<Rightarrow> world \<Rightarrow> (error + string option) \<times> gen \<times> world" where
  "gen_next h (Created cmd fail) w =
     (case get_logger_on_class h None w of
        (Inl e, w1) \<Rightarrow> (Inl e, Closed, w1)
      | (Inr _, w1) \<Rightarrow>
          (let w2 = emit DEBUG (PStr (''Running: '' @ cmd)) w1 in
           case shlex_split h cmd of
             Inl e \<Rightarrow> (Inl e, Closed, w2)
           | Inr argv \<Rightarrow>
               (case popen h argv of
                  Inl e \<Rightarrow> (Inl e, Closed, w2)
                | Inr proc \<Rightarrow>
                    shell_loop h cmd fail (stdout proc) (returncode proc)
                      (w2\<lparr>spawned := spawned w2 @ [argv]\<rparr>))))"
| "gen_next h (Suspended cmd fail out ret) w = shell_loop h cmd fail out ret w"
| "gen_next h Closed w = (Inr None, Closed, w)"

section \<open>The Runtime Detector: \<open>Operator._determine_runtime\<close>\<close>

definition endswith :: "string \<Rightarrow> string \<Rightarrow> bool" where
  "endswith s suffix =
     (length suffix \<le> length s \<and> drop (length s - length suffix) s = suffix)"

text \<open>The output a generator can still yield; it bounds the rounds of a \<open>for\<close> loop over it.\<close>

fun pending :: "gen \<Rightarrow> nat" where
  "pending (Suspended cmd fail out ret) = length out"
| "pending g = 0"

lemma gen_next_pending:
  "gen_next h g w = (Inr (Some line), g', w') \<Longrightarrow> pending g' < pending g"
  by (cases g)
    (auto simp: shell_loop_def shell_finish_def utf8ify_def
          split: list.splits if_splits sum.splits)

text \<open>
  One of the two loops \<open>for line in cls.shell(...): if line.endswith(...) and not
  os.path.islink(line): return ...\<close>: \<open>Inr True\<close> when the loop returns from inside,
  \<open>Inr False\<close> when the generator is exhausted first.
\<close>

function scan_lines :: "host \<Rightarrow> string \<Rightarrow> gen \<Rightarrow> world \<Rightarrow> (error + bool) \<times> world" where
  "scan_lines h suffix g w =
     (case gen_next h g w of
        (Inl e, g', w') \<Rightarrow> (Inl e, w')
      | (Inr None, g', w') \<Rightarrow> (Inr False, w')
      | (Inr (Some line), g', w') \<Rightarrow>
          if endswith line suffix \<and> \<not> islink h line then (Inr True, w')
          else scan_lines h suffix g' w')"
  by pat_completeness auto
termination
  by (relation "measure (\<lambda>(h, suffix, g, w). pending g)") (auto dest: gen_next_pending [OF sym])

declare scan_lines.simps [simp del]

text \<open>
  A caller that takes every element, as \<open>list(Operator.shell(cmd))\<close> or a \<open>for\<close> loop
  that never leaves early does: how the iteration ends, the lines yielded before that,
  and the state of the process.
\<close>

function consume :: "host \<Rightarrow> gen \<Rightarrow> world \<Rightarrow> (error + unit) \<times> string list \<times> world" where
  "consume h g w =
     (case gen_next h g w of
        (Inl e, g', w') \<Rightarrow> (Inl e, [], w')
      | (Inr None, g', w') \<Rightarrow> (Inr (), [], w')
      | (Inr (Some line), g', w') \<Rightarrow>
          (case consume h g' w' of (r, ls, w'') \<Rightarrow> (r, line # ls, w'')))"
  by pat_completeness auto
termination
  by (relation "measure (\<lambda>(h, g, w). pending g)") (auto dest: gen_next_pending [OF sym])

declare consume.simps [simp del]

definition determine_runtime :: "host \<Rightarrow> world \<Rightarrow> (error + string) \<times> world" where
  "determine_runtime h w =
     (case shell ''which docker'' False w of
        (g1, w1) \<Rightarrow>
          (case scan_lines h ''/docker'' g1 w1 of
             (Inl e, w2) \<Rightarrow> (Inl e, w2)
           | (Inr True, w2) \<Rightarrow> (Inr ''docker'', w2)
           | (Inr False, w2) \<Rightarrow>
               (case shell ''which podman'' False w2 of
                  (g2, w3) \<Rightarrow>
                    (case scan_lines h ''/podman'' g2 w3 of
                       (Inl e, w4) \<Rightarrow> (Inl e, w4)
                     | (Inr True, w4) \<Rightarrow> (Inr ''podman'', w4)
                     | (Inr False, w4) \<Rightarrow>
                         (Inl (RuntimeError ''Unable to identify a container runtime!''),
                          w4)))))"

section \<open>The Settings Model: the class \<open>Operator\<close>\<close>

text \<open>
  An attribute of an instance is either set to a value or was never assigned; reading
  one that was never assigned (and that the class does not define) raises
  \<open>AttributeError\<close>.
\<close>

datatype 'a attr = Unset | Set 'a

definition getattr :: "string \<Rightarrow> 'a attr \<Rightarrow> error + 'a" where
  "getattr name a = (case a of Unset \<Rightarrow> Inl (AttributeError name) | Set v \<Rightarrow> Inr v)"

text \<open>
  The instance attributes that the methods of \<open>Operator\<close> assign or read: the ten
  assigned by \<open>__init__\<close>, \<open>sample\<close> (read by \<open>__repr__\<close>) and \<open>initialized\<close> (read by
  \<open>__repr__\<close> and \<open>initialize_operator\<close>, assigned by \<open>initialize_operator\<close>).
\<close>

record operator =
  image_ref :: "pyval attr"
  version :: "pyval attr"
  channels :: "pyval attr"
  kinds :: "pyval attr"
  default_sample :: "pyval attr"
  domain :: "pyval attr"
  api_group :: "pyval attr"
  api_version :: "pyval attr"
  runtime :: "string attr"
  logger :: "unit attr"
  sample :: "pyval attr"
  initialized :: "pyval attr"

text \<open>The object that \<open>__new__\<close> hands to \<open>__init__\<close>.\<close>

definition blank :: operator where
  "blank = \<lparr>image_ref = Unset, version = Unset, channels = Unset, kinds = Unset,
     default_sample = Unset, domain = Unset, api_group = Unset, api_version = Unset,
     runtime = Unset, logger = Unset, sample = Unset, initialized = Unset\<rparr>"

text \<open>The arguments of \<open>__init__\<close>, defaults filled in by the caller.\<close>

record init_args =
  arg_image :: pyval
  arg_version :: pyval
  arg_channels :: pyval
  arg_kinds :: pyval
  arg_default_sample :: pyval
  arg_domain :: pyval
  arg_group :: pyval
  arg_api_version :: pyval
  arg_initialized :: pyval
  arg_verbosity :: "int option"

text \<open>
  \<open>__init__\<close>: the outcome, the object as the call leaves it (also when it raises
  part-way) and the state of the process.
\<close>

definition init ::
  "host \<Rightarrow> init_args \<Rightarrow> operator \<Rightarrow> world \<Rightarrow> (error + unit) \<times> operator \<times> world" where
  "init h a self w =
     (let self1 = self\<lparr>image_ref := Set (arg_image a), version := Set (arg_version a),
                       channels := Set (arg_channels a), kinds := Set (arg_kinds a),
                       default_sample := Set (arg_default_sample a),
                       domain := Set (arg_domain a), api_group := Set (arg_group a),
                       api_version := Set (arg_api_version a)\<rparr>
      in case determine_runtime h w of
           (Inl e, w1) \<Rightarrow> (Inl e, self1, w1)
         | (Inr r, w1) \<Rightarrow>
             (Inr (), self1\<lparr>runtime := Set r, logger := Set ()\<rparr>,
              get_logger h (arg_verbosity a) w1))"

text \<open>The call \<open>cls(...)\<close>: a new object, initialised.\<close>

definition Operator :: "host \<Rightarrow> init_args \<Rightarrow> world \<Rightarrow> (error + operator) \<times> world" where
  "Operator h a w =
     (case init h a blank w of
        (Inl e, self, w1) \<Rightarrow> (Inl e, w1)
      | (Inr _, self, w1) \<Rightarrow> (Inr self, w1))"

text \<open>\<open>settings.get(key)\<close> on the dictionary read from the file.\<close>

definition dict_get :: "(string \<times> pyval) list \<Rightarrow> string \<Rightarrow> pyval" where
  "dict_get kv key = (case map_of kv key of None \<Rightarrow> PNone | Some v \<Rightarrow> v)"

definition load :: "host \<Rightarrow> string \<Rightarrow> world \<Rightarrow> (error + operator) \<times> world" where
  "load h file w =
     (case get_logger_on_class h None w of
        (Inl e, w1) \<Rightarrow> (Inl e, w1)
      | (Inr _, w1) \<Rightarrow>
          (case safe_load h file of
             Inl e \<Rightarrow> (Inl e, w1)
           | Inr settings \<Rightarrow>
               (let w2 = emit DEBUG settings (emit DEBUG (PStr ''Recovered settings:'') w1)
                in case settings of
                     PDict kv \<Rightarrow>
                       Operator h
                         \<lparr>arg_image = dict_get kv ''image'',
                          arg_version = dict_get kv ''version'',
                          arg_channels = dict_get kv ''channels'',
                          arg_kinds = dict_get kv ''kinds'',
                          arg_default_sample = dict_get kv ''default-sample'',
                          arg_domain = dict_get kv ''domain'',
                          arg_group = dict_get kv ''group'',
                          arg_api_version = dict_get kv ''api-version'',
                          arg_initialized = PBool False,
                          arg_verbosity = None\<rparr> w2
                   | _ \<Rightarrow> (Inl (AttributeError ''get''), w2))))"

text \<open>The text \<open>str.format\<close> puts for one \<open>{}\<close> field.\<close>

fun py_format :: "host \<Rightarrow> pyval \<Rightarrow> string" where
  "py_format h PNone = ''None''"
| "py_format h (PBool b) = (if b then ''True'' else ''False'')"
| "py_format h (PInt i) = show_int i"
| "py_format h (PStr s) = s"
| "py_format h v = format_container h v"

text \<open>The truth value of an object in \<open>if\<close>, and the elements a \<open>for\<close> takes from it.\<close>

fun truthy :: "pyval \<Rightarrow> bool" where
  "truthy PNone = False"
| "truthy (PBool b) = b"
| "truthy (PInt i) = (i \<noteq> 0)"
| "truthy (PStr s) = (s \<noteq> [])"
| "truthy (PList xs) = (xs \<noteq> [])"
| "truthy (PDict kv) = (kv \<noteq> [])"

fun iterate :: "pyval \<Rightarrow> error + pyval list" where
  "iterate (PList xs) = Inr xs"
| "iterate (PStr s) = Inr (map (\<lambda>c. PStr [c]) s)"
| "iterate (PDict kv) = Inr (map (\<lambda>p. PStr (fst p)) kv)"
| "iterate v = Inl (TypeError ''object is not iterable'')"

text \<open>
  The list comprehension of \<open>initialize_operator\<close>: one call of \<open>self.shell\<close> per kind,
  the generator objects collected in a list.
\<close>

fun create_apis ::
  "host \<Rightarrow> operator \<Rightarrow> pyval list \<Rightarrow> world \<Rightarrow> (error + gen list) \<times> world" where
  "create_apis h self [] w = (Inr [], w)"
| "create_apis h self (kind # rest) w =
     (case getattr ''group'' (api_group self) of
        Inl e \<Rightarrow> (Inl e, w)
      | Inr g \<Rightarrow>
          (case getattr ''version'' (version self) of
             Inl e \<Rightarrow> (Inl e, w)
           | Inr v \<Rightarrow>
               (case shell (''operator-sdk create api --group='' @ py_format h g @
                            '' --version='' @ py_format h v @
                            '' --kind='' @ py_format h kind) True w of
                  (x, w1) \<Rightarrow>
                    (case create_apis h self rest w1 of
                       (Inl e, w2) \<Rightarrow> (Inl e, w2)
                     | (Inr xs, w2) \<Rightarrow> (Inr (x # xs), w2)))))"

definition initialize_operator ::
  "host \<Rightarrow> operator \<Rightarrow> world \<Rightarrow> (error + unit) \<times> operator \<times> world" where
  "initialize_operator h self w =
     (case getattr ''initialized'' (initialized self) of
        Inl e \<Rightarrow> (Inl e, self, w)
      | Inr i \<Rightarrow>
          if truthy i then (Inr (), self, w)
          else (case getattr ''domain'' (domain self) of
                  Inl e \<Rightarrow> (Inl e, self, w)
                | Inr d \<Rightarrow>
                    (case shell (''operator-sdk init --plugins=ansible --domain='' @
                                 py_format h d) True w of
                       (x, w1) \<Rightarrow>
                         (case getattr ''kinds'' (kinds self) of
                            Inl e \<Rightarrow> (Inl e, self, w1)
                          | Inr ks \<Rightarrow>
                              (case iterate ks of
                                 Inl e \<Rightarrow> (Inl e, self, w1)
                               | Inr kl \<Rightarrow>
                                   (case create_apis h self kl w1 of
                                      (Inl e, w2) \<Rightarrow> (Inl e, self, w2)
                                    | (Inr xs, w2) \<Rightarrow>
                                        (Inr (), self\<lparr>initialized := Set (PBool True)\<rparr>,
                                         w2)))))))"

text \<open>\<open>__repr__\<close>: the arguments of \<open>format\<close> are read in the order they are written.\<close>

definition repr :: "host \<Rightarrow> operator \<Rightarrow> error + string" where
  "repr h self =
     (case getattr ''image'' (image_ref self) of Inl e \<Rightarrow> Inl e | Inr a1 \<Rightarrow>
     (case getattr ''version'' (version self) of Inl e \<Rightarrow> Inl e | Inr a2 \<Rightarrow>
     (case getattr ''channels'' (channels self) of Inl e \<Rightarrow> Inl e | Inr a3 \<Rightarrow>
     (case getattr ''kinds'' (kinds self) of Inl e \<Rightarrow> Inl e | Inr a4 \<Rightarrow>
     (case getattr ''sample'' (sample self) of Inl e \<Rightarrow> Inl e | Inr a5 \<Rightarrow>
     (case getattr ''domain'' (domain self) of Inl e \<Rightarrow> Inl e | Inr a6 \<Rightarrow>
     (case getattr ''group'' (api_group self) of Inl e \<Rightarrow> Inl e | Inr a7 \<Rightarrow>
     (case getattr ''api_version'' (api_version self) of Inl e \<Rightarrow> Inl e | Inr a8 \<Rightarrow>
     (case getattr ''initialized'' (initialized self) of Inl e \<Rightarrow> Inl e | Inr a9 \<Rightarrow>
        Inr (concat
          [''OperatorSettings(image='', py_format h a1, '', version='', py_format h a2,
           '', channels='', py_format h a3, '', kinds='', py_format h a4,
           '', default_sample='', py_format h a5, '', domain='', py_format h a6,
           '', group='', py_format h a7, '', api_version='', py_format h a8,
           '' initialized='', py_format h a9, '')'']))))))))))"

section \<open>The command-line entry point: \<open>main\<close>\<close>

text \<open>
  The body of \<open>main(verbose)\<close>; \<open>verbose\<close> is the number of \<open>-v\<close> flags counted by click,
  \<open>argv\<close> is \<open>sys.argv\<close>.
\<close>

definition main :: "host \<Rightarrow> string list \<Rightarrow> int \<Rightarrow> world \<Rightarrow> (error + unit) \<times> world" where
  "main h argv verbose w =
     (case get_logger_on_class h (Some (PInt verbose)) w of
        (Inl e, w1) \<Rightarrow> (Inl e, w1)
      | (Inr _, w1) \<Rightarrow>
          (Inr (),
           emit DEBUG (PStr (''verbose: '' @ show_int verbose))
             (emit DEBUG (PList (map PStr argv)) w1)))"

section \<open>A host for evaluating the model\<close>

text \<open>
  A host on which \<open>docker\<close> is installed as a regular file, \<open>/dev/log\<close> exists,
  \<open>cat abc.txt\<close> prints the lines a, b, c and exits with 0, \<open>sh fail.sh\<close> prints the line x
  and exits with 7, and \<open>operate.yml\<close> is the document \<open>image: foo\<close>. Its answers are
  tabulated for the commands, files and lists used below.
\<close>

definition ascii :: "bytes \<Rightarrow> error + string" where
  "ascii bs =
     (if list_all (\<lambda>b. b < 128) bs then Inr (map char_of bs) else Inl UnicodeDecodeError)"

definition example_host :: host where
  "example_host =
     \<lparr>dev_log = True,
      islink = (\<lambda>path. path = ''/usr/bin/podman''),
      shlex_split = (\<lambda>cmd.
        if cmd = ''which docker'' then Inr [''which'', ''docker'']
        else if cmd = ''which podman'' then Inr [''which'', ''podman'']
        else if cmd = ''cat abc.txt'' then Inr [''cat'', ''abc.txt'']
        else if cmd = ''sh fail.sh'' then Inr [''sh'', ''fail.sh'']
        else Inl (ValueError ''not tabulated'')),
      popen = (\<lambda>argv.
        if argv = [''which'', ''docker'']
          then Inr \<lparr>stdout = [map of_char ''/usr/bin/docker'' @ [10]], returncode = 0\<rparr>
        else if argv = [''cat'', ''abc.txt'']
          then Inr \<lparr>stdout = [[97, 10], [98, 10], [99, 10]], returncode = 0\<rparr>
        else if argv = [''sh'', ''fail.sh'']
          then Inr \<lparr>stdout = [[120, 10]], returncode = 7\<rparr>
        else Inl (OSError ''No such file or directory'')),
      decode = ascii,
      safe_load = (\<lambda>file.
        if file = ''operate.yml'' then Inr (PDict [(''image'', PStr ''foo'')])
        else Inl (OSError ''No such file or directory'')),
      format_container = (\<lambda>v.
        if v = PList [PStr ''alpha''] then ''['' @ [CHR 0x27] @ ''alpha'' @ [CHR 0x27] @ '']''
        else if v = PList [PStr ''Memcached'']
          then ''['' @ [CHR 0x27] @ ''Memcached'' @ [CHR 0x27] @ '']''
        else if v = PDict [] then ''{}''
        else ''[]'')\<rparr>"

text \<open>The arguments of \<open>Operator(...)\<close> for a project with one kind.\<close>

definition example_args :: init_args where
  "example_args =
     \<lparr>arg_image = PStr ''quay.io/example/memcached-operator'',
      arg_version = PStr ''v1alpha1'',
      arg_channels = PList [PStr ''alpha''],
      arg_kinds = PList [PStr ''Memcached''],
      arg_default_sample = PNone,
      arg_domain = PStr ''example.com'',
      arg_group = PStr ''cache'',
      arg_api_version = PStr ''v1alpha1'',
      arg_initialized = PBool False,
      arg_verbosity = None\<rparr>"

section \<open>Properties of the Logger Provisioner\<close>

lemma get_logger_first:
  "handlers w = [] \<Longrightarrow>
   handlers (get_logger h v w) =
     \<lparr>sink = Console, level = console_level v\<rparr> #
       (if dev_log h then [\<lparr>sink = SysLog, level = INFO\<rparr>] else [])"
  by (simp add: get_logger_def Let_def)

lemma get_logger_later:
  "handlers w = x # xs \<Longrightarrow>
   handlers (get_logger h v w) =
     (case v of Some n \<Rightarrow> x\<lparr>level := 40 - (min 3 n * 10)\<rparr> | None \<Rightarrow> x) # xs"
  by (simp add: get_logger_def Let_def split: option.splits)

text \<open>
  C5. On the first call (no handler installed yet) with verbosity \<open>v\<close>, the first
  handler becomes the console sink with threshold \<open>40 - min(3, v) * 10\<close>: 40, 30, 20, 10
  for 0, 1, 2, 3, and 10 for every \<open>v\<close> from 3 on. On a first call without verbosity the
  console threshold is 40.
\<close>

theorem get_logger_console_threshold:
  assumes "handlers w = []" and "0 \<le> v"
  shows "sink (hd (handlers (get_logger h (Some v) w))) = Console
       \<and> level (hd (handlers (get_logger h (Some v) w))) = 40 - min 3 v * 10
       \<and> (v = 0 \<longrightarrow> level (hd (handlers (get_logger h (Some v) w))) = 40)
       \<and> (v = 1 \<longrightarrow> level (hd (handlers (get_logger h (Some v) w))) = 30)
       \<and> (v = 2 \<longrightarrow> level (hd (handlers (get_logger h (Some v) w))) = 20)
       \<and> (3 \<le> v \<longrightarrow> level (hd (handlers (get_logger h (Some v) w))) = 10)
       \<and> sink (hd (handlers (get_logger h None w))) = Console
       \<and> level (hd (handlers (get_logger h None w))) = 40"
  using assms by (simp add: get_logger_first console_level_def)

theorem get_logger_console_threshold_witness:
  "handlers fresh = []
   \<and> level (hd (handlers (get_logger example_host (Some 0) fresh))) = 40
   \<and> level (hd (handlers (get_logger example_host (Some 1) fresh))) = 30
   \<and> level (hd (handlers (get_logger example_host (Some 2) fresh))) = 20
   \<and> level (hd (handlers (get_logger example_host (Some 3) fresh))) = 10
   \<and> level (hd (handlers (get_logger example_host (Some 100) fresh))) = 10
   \<and> level (hd (handlers (get_logger example_host None fresh))) = 40"
  using get_logger_console_threshold [of fresh 0 example_host]
    get_logger_console_threshold [of fresh 1 example_host]
    get_logger_console_threshold [of fresh 2 example_host]
    get_logger_console_threshold [of fresh 3 example_host]
    get_logger_console_threshold [of fresh 100 example_host]
  by (simp add: fresh_def)

lemma get_logger_sinks_ok:
  "sinks_ok (handlers w) \<Longrightarrow> sinks_ok (handlers (get_logger h v w))"
proof (cases "handlers w")
  case Nil
  then show ?thesis by (simp add: get_logger_first)
next
  case (Cons x xs)
  assume ok: "sinks_ok (handlers w)"
  from Cons have eq: "handlers (get_logger h v w) =
      (case v of Some n \<Rightarrow> x\<lparr>level := 40 - (min 3 n * 10)\<rparr> | None \<Rightarrow> x) # xs"
    by (rule get_logger_later)
  from ok Cons show ?thesis
    unfolding eq by (cases xs rule: sinks_ok.cases; cases v; cases xs) auto
qed

lemma get_logger_call_sinks_ok:
  "sinks_ok (handlers w) \<Longrightarrow> sinks_ok (handlers (get_logger_call h c w))"
proof (cases c)
  case (OnInstance v)
  assume "sinks_ok (handlers w)"
  with OnInstance show ?thesis by (simp add: get_logger_sinks_ok)
next
  case (OnClass arg)
  assume "sinks_ok (handlers w)"
  with OnClass show ?thesis by (cases arg) (simp_all add: get_logger_sinks_ok)
qed

lemma get_logger_calls_sinks_ok:
  "sinks_ok (handlers w) \<Longrightarrow> sinks_ok (handlers (get_logger_calls cs w))"
  by (induction cs arbitrary: w) (auto simp: get_logger_call_sinks_ok)

lemma get_logger_later_frame:
  assumes "handlers w \<noteq> []"
  shows "length (handlers (get_logger h v w)) = length (handlers w)"
    and "tl (handlers (get_logger h v w)) = tl (handlers w)"
    and "sink (hd (handlers (get_logger h v w))) = sink (hd (handlers w))"
    and "v = None \<Longrightarrow> handlers (get_logger h v w) = handlers w"
    and "v = Some n \<Longrightarrow> level (hd (handlers (get_logger h v w))) = 40 - min 3 n * 10"
  using assms by (cases "handlers w"; cases v; simp add: get_logger_later)+

lemma get_logger_call_later_frame:
  assumes "handlers w \<noteq> []"
  shows "length (handlers (get_logger_call h c w)) = length (handlers w)"
    and "tl (handlers (get_logger_call h c w)) = tl (handlers w)"
    and "sink (hd (handlers (get_logger_call h c w))) = sink (hd (handlers w))"
proof -
  show "length (handlers (get_logger_call h c w)) = length (handlers w)"
  proof (cases c)
    case (OnInstance v)
    with assms show ?thesis by (simp add: get_logger_later_frame)
  next
    case (OnClass arg)
    with assms show ?thesis by (cases arg) (simp_all add: get_logger_later_frame)
  qed
  show "tl (handlers (get_logger_call h c w)) = tl (handlers w)"
  proof (cases c)
    case (OnInstance v)
    with assms show ?thesis by (simp add: get_logger_later_frame)
  next
    case (OnClass arg)
    with assms show ?thesis by (cases arg) (simp_all add: get_logger_later_frame)
  qed
  show "sink (hd (handlers (get_logger_call h c w))) = sink (hd (handlers w))"
  proof (cases c)
    case (OnInstance v)
    with assms show ?thesis by (simp add: get_logger_later_frame)
  next
    case (OnClass arg)
    with assms show ?thesis by (cases arg) (simp_all add: get_logger_later_frame)
  qed
qed

lemma sinks_ok_shape:
  assumes "sinks_ok hs"
  shows "length hs \<le> 2"
    and "length (filter (\<lambda>x. sink x = Console) hs) \<le> 1"
    and "length (filter (\<lambda>x. sink x = SysLog) hs) \<le> 1"
    and "list_all (\<lambda>x. level x = INFO) (tl hs)"
    and "hs \<noteq> [] \<Longrightarrow> sink (hd hs) = Console"
  using assms by (induction hs rule: sinks_ok.induct) auto

text \<open>
  C6. In a process whose logger starts without handlers, after any sequence of calls of
  \<open>get_logger\<close> (in any of the shapes the source uses, with or without verbosity) and
  one more call: there are at most two sinks, at most one console sink and at most one
  system-log sink, and every sink after the first has threshold \<open>INFO\<close>. If sinks were
  already installed before that call, the call leaves their number and every sink but
  the first as they were, the first is still the console sink, and when the call gives
  a verbosity \<open>n\<close> the console threshold becomes \<open>40 - min(3, n) * 10\<close>.
\<close>

theorem get_logger_sinks_stable:
  assumes "handlers w = []"
    and "w1 = get_logger_calls cs w"
    and "w2 = get_logger_call h c w1"
  shows "length (handlers w2) \<le> 2
       \<and> length (filter (\<lambda>x. sink x = Console) (handlers w2)) \<le> 1
       \<and> length (filter (\<lambda>x. sink x = SysLog) (handlers w2)) \<le> 1
       \<and> list_all (\<lambda>x. level x = INFO) (tl (handlers w2))
       \<and> (handlers w1 \<noteq> [] \<longrightarrow>
            length (handlers w2) = length (handlers w1)
          \<and> tl (handlers w2) = tl (handlers w1)
          \<and> sink (hd (handlers w2)) = Console
          \<and> (\<forall>n. c = OnInstance (Some n) \<longrightarrow>
                level (hd (handlers w2)) = 40 - min 3 n * 10))"
proof -
  from assms(1) have "sinks_ok (handlers w)" by simp
  then have ok1: "sinks_ok (handlers w1)"
    unfolding assms(2) by (rule get_logger_calls_sinks_ok)
  then have ok2: "sinks_ok (handlers w2)"
    unfolding assms(3) by (rule get_logger_call_sinks_ok)
  have later: "length (handlers w2) = length (handlers w1)
          \<and> tl (handlers w2) = tl (handlers w1)
          \<and> sink (hd (handlers w2)) = Console
          \<and> (\<forall>n. c = OnInstance (Some n) \<longrightarrow>
                level (hd (handlers w2)) = 40 - min 3 n * 10)"
    if ne: "handlers w1 \<noteq> []"
  proof -
    have "sink (hd (handlers w1)) = Console"
      using ok1 ne by (rule sinks_ok_shape(5))
    then show ?thesis
      unfolding assms(3)
      using get_logger_call_later_frame [OF ne, of h c] get_logger_later_frame(5) [OF ne]
      by auto
  qed
  show ?thesis
    using sinks_ok_shape(1-4) [OF ok2] later by blast
qed

theorem get_logger_sinks_stable_witness:
  "handlers fresh = []
   \<and> handlers (get_logger_calls [(example_host, OnInstance None)] fresh) \<noteq> []
   \<and> handlers (get_logger_call example_host (OnInstance (Some 2))
        (get_logger_calls [(example_host, OnInstance None)] fresh))
     = [\<lparr>sink = Console, level = 20\<rparr>, \<lparr>sink = SysLog, level = INFO\<rparr>]
   \<and> length (handlers (get_logger_call example_host (OnInstance (Some 2))
        (get_logger_calls [(example_host, OnInstance None)] fresh))) \<le> 2"
  using get_logger_sinks_stable [of fresh
      "get_logger_calls [(example_host, OnInstance None)] fresh"
      "[(example_host, OnInstance None)]"
      "get_logger_call example_host (OnInstance (Some 2))
        (get_logger_calls [(example_host, OnInstance None)] fresh)"
      example_host "OnInstance (Some 2)"]
  by (simp add: fresh_def get_logger_def example_host_def console_level_def Let_def)

section \<open>Calls of \<open>get_logger\<close> on the class\<close>

lemma gen_next_created: "gen_next h (Created cmd fail) w = (Inl missing_self, Closed, w)"
  by simp

lemma consume_created: "consume h (Created cmd fail) w = (Inl missing_self, [], w)"
  by (simp add: consume.simps)

lemma scan_lines_created: "scan_lines h suffix (Created cmd fail) w = (Inl missing_self, w)"
  by (simp add: scan_lines.simps)

lemma determine_runtime_raises: "determine_runtime h w = (Inl missing_self, w)"
  by (simp add: determine_runtime_def shell_def scan_lines_created)

lemma init_raises:
  "fst (init h a self w) = Inl missing_self" and "snd (snd (init h a self w)) = w"
  by (simp_all add: init_def determine_runtime_raises Let_def)

lemma Operator_raises: "Operator h a w = (Inl missing_self, w)"
  by (simp add: Operator_def init_def determine_runtime_raises Let_def)

lemma load_raises: "load h file w = (Inl missing_self, w)"
  by (simp add: load_def)

lemma main_console_level:
  "handlers w = [] \<Longrightarrow> level (hd (handlers (snd (main h argv verbose w)))) = 40"
  by (simp add: main_def emit_def get_logger_first console_level_def)

section \<open>The body of \<open>shell\<close> from its \<open>yield\<close> on\<close>

lemma shell_loop_yield:
  assumes "line_bytes \<noteq> []" and "decode h line_bytes = Inr s"
  shows "shell_loop h cmd fail (line_bytes # rest) ret w =
           (Inr (Some (rstrip s)), Suspended cmd fail rest ret,
            emit DEBUG (PStr (''Line:    '' @ rstrip s)) w)"
  using assms by (simp add: shell_loop_def utf8ify_def)

lemma consume_suspended_lines:
  assumes "list_all (\<lambda>b. b \<noteq> [] \<and> decode h b = Inr (dec b)) out"
  shows "fst (snd (consume h (Suspended cmd fail out ret) w)) = map (\<lambda>b. rstrip (dec b)) out"
    and "fst (consume h (Suspended cmd fail out ret) w) =
           (if fail \<and> ret \<noteq> 0 then Inl (SystemExit ret) else Inr ())"
  using assms
proof (induction out arbitrary: w)
  case Nil
  {
    case 1
    show ?case by (simp add: consume.simps shell_loop_def shell_finish_def)
  next
    case 2
    show ?case by (simp add: consume.simps shell_loop_def shell_finish_def)
  }
next
  case (Cons b out)
  {
    case 1
    then have b: "b \<noteq> []" "decode h b = Inr (dec b)"
      and rest: "list_all (\<lambda>b. b \<noteq> [] \<and> decode h b = Inr (dec b)) out"
      by simp_all
    show ?case
      using Cons.IH(1) [OF rest]
      by (subst consume.simps) (simp add: shell_loop_yield [OF b] case_prod_beta)
  next
    case 2
    then have b: "b \<noteq> []" "decode h b = Inr (dec b)"
      and rest: "list_all (\<lambda>b. b \<noteq> [] \<and> decode h b = Inr (dec b)) out"
      by simp_all
    show ?case
      using Cons.IH(2) [OF rest]
      by (subst consume.simps) (simp add: shell_loop_yield [OF b] case_prod_beta)
  }
qed

section \<open>Callers that never consume the sequence\<close>



section \<open>The Process Runner as the source calls it\<close>

text \<open>
  C1. \<open>cat abc.txt\<close> prints the lines a, b, c and exits with 0, yet the sequence
  returned by \<open>Operator.shell\<close> yields none of them: the first request for an element
  runs \<open>cls.get_logger()\<close>, which raises \<open>TypeError\<close> before any process is created.
\<close>

theorem shell_abc_raises:
  "popen example_host [''cat'', ''abc.txt'']
     = Inr \<lparr>stdout = [[97, 10], [98, 10], [99, 10]], returncode = 0\<rparr>
   \<and> consume example_host (fst (shell ''cat abc.txt'' True fresh))
         (snd (shell ''cat abc.txt'' True fresh))
     = (Inl missing_self, [], fresh)
   \<and> spawned fresh = []"
  by (simp add: shell_def consume_created example_host_def fresh_def)

text \<open>
  C2. \<open>sh fail.sh\<close> exits with 7. With \<open>fail\<close> true the iteration ends with
  \<open>TypeError\<close>, not with \<open>SystemExit 7\<close>, and with \<open>fail\<close> false it ends with the same
  \<open>TypeError\<close> instead of running to exhaustion; in both cases no line is yielded and
  no record, of \<open>ERROR\<close>, \<open>WARNING\<close> or any other severity, reaches the logger.
\<close>

theorem shell_failing_command_raises:
  "popen example_host [''sh'', ''fail.sh''] = Inr \<lparr>stdout = [[120, 10]], returncode = 7\<rparr>
   \<and> consume example_host (fst (shell ''sh fail.sh'' True fresh))
         (snd (shell ''sh fail.sh'' True fresh))
     = (Inl missing_self, [], fresh)
   \<and> consume example_host (fst (shell ''sh fail.sh'' False fresh))
         (snd (shell ''sh fail.sh'' False fresh))
     = (Inl missing_self, [], fresh)
   \<and> records fresh = []
   \<and> missing_self \<noteq> SystemExit 7"
  by (simp add: shell_def consume_created example_host_def fresh_def missing_self_def)



section \<open>The Runtime Detector and the loader as the source calls them\<close>

text \<open>
  C4. On a host where \<open>which docker\<close> prints \<open>/usr/bin/docker\<close>, which is not a symbolic
  link, \<open>_determine_runtime\<close> does not return \<open>docker\<close>: the first round of its first
  loop raises the \<open>TypeError\<close> of \<open>cls.get_logger()\<close>.
\<close>

theorem determine_runtime_docker_raises:
  "popen example_host [''which'', ''docker'']
     = Inr \<lparr>stdout = [map of_char ''/usr/bin/docker'' @ [10]], returncode = 0\<rparr>
   \<and> \<not> islink example_host ''/usr/bin/docker''
   \<and> endswith ''/usr/bin/docker'' ''/docker''
   \<and> determine_runtime example_host fresh = (Inl missing_self, fresh)"
  by (simp add: determine_runtime_raises example_host_def endswith_def)

text \<open>
  C8. For the document \<open>image: foo\<close>, \<open>load\<close> raises: its first statement is
  \<open>cls.get_logger()\<close>, so the file is not even read and no object is returned.
\<close>

theorem load_image_only_raises:
  "safe_load example_host ''operate.yml'' = Inr (PDict [(''image'', PStr ''foo'')])
   \<and> load example_host ''operate.yml'' fresh = (Inl missing_self, fresh)"
  by (simp add: load_raises example_host_def)

section \<open>The entry point\<close>

text \<open>
  C9. With \<open>-v\<close> given three times, \<open>main\<close> calls \<open>Operator.get_logger(3)\<close>, which binds 3
  to \<open>self\<close> and leaves \<open>verbosity\<close> at \<open>None\<close>: the console sink is installed with
  threshold 40, not \<open>40 - min(3, 3) * 10 = 10\<close>.
\<close>

theorem main_ignores_verbose:
  "handlers (snd (main example_host [''operate.py'', ''-vvv''] 3 fresh))
     = [\<lparr>sink = Console, level = 40\<rparr>, \<lparr>sink = SysLog, level = 20\<rparr>]
   \<and> 40 - min 3 (3::int) * 10 = 10"
  by (simp add: main_def emit_def get_logger_def fresh_def example_host_def
        console_level_def INFO_def Let_def)

section \<open>The flag \<open>initialized\<close>\<close>

lemma init_initialized:
  "initialized self = Unset \<Longrightarrow> initialized (fst (snd (init h a self w))) = Unset"
  by (simp add: init_def determine_runtime_raises Let_def)

lemma repr_after_init:
  "repr h (fst (snd (init h' a blank w))) = Inl (AttributeError ''sample'')"
  by (simp add: repr_def init_def determine_runtime_raises Let_def blank_def getattr_def)

text \<open>
  C10. Whatever is passed as \<open>initialized\<close> (and as every other argument), the object that
  \<open>__init__\<close> leaves behind has no attribute \<open>initialized\<close>: reading it raises
  \<open>AttributeError\<close>, and so does \<open>initialize_operator\<close>, whose first statement reads it.
\<close>

theorem init_never_sets_initialized:
  "initialized (fst (snd (init h (a\<lparr>arg_initialized := i\<rparr>) blank w))) = Unset
   \<and> getattr ''initialized''
        (initialized (fst (snd (init h (a\<lparr>arg_initialized := i\<rparr>) blank w))))
      = (Inl (AttributeError ''initialized'') :: error + pyval)
   \<and> fst (initialize_operator h'
        (fst (snd (init h (a\<lparr>arg_initialized := i\<rparr>) blank w))) w')
      = Inl (AttributeError ''initialized'')"
proof -
  have u: "initialized (fst (snd (init h (a\<lparr>arg_initialized := i\<rparr>) blank w))) = Unset"
    by (rule init_initialized) (simp add: blank_def)
  show ?thesis
    by (simp add: u getattr_def initialize_operator_def)
qed

text \<open>
  C3. An object as \<open>__init__\<close> leaves it cannot be initialised: the first call of
  \<open>initialize_operator\<close> raises \<open>AttributeError\<close>. On an object whose flag a caller has set
  to false, \<open>initialize_operator\<close> sets the flag and creates no process: the generators
  returned by \<open>self.shell\<close> are never iterated, so neither \<open>operator-sdk init\<close> nor
  \<open>operator-sdk create api\<close> is run.
\<close>

theorem initialize_operator_runs_nothing:
  "fst (initialize_operator example_host
          (fst (snd (init example_host example_args blank fresh))) fresh)
     = Inl (AttributeError ''initialized'')
   \<and> initialize_operator example_host
        ((fst (snd (init example_host example_args blank fresh)))
           \<lparr>initialized := Set (PBool False)\<rparr>) fresh
     = (Inr (),
        (fst (snd (init example_host example_args blank fresh)))
           \<lparr>initialized := Set (PBool True)\<rparr>,
        fresh)
   \<and> spawned fresh = []"
  by (simp add: initialize_operator_def init_def determine_runtime_raises Let_def
        blank_def getattr_def example_args_def shell_def fresh_def)

end
